theory Spec2Isabelle
  imports Complex_Main
begin

section \<open>The adaptive difficulty engine of \<^verbatim>\<open>adaptive_engine.py\<close>\<close>

text \<open>
  The engine keeps a configuration, an attempt counter and a list of decision records.
  Its one decision operation, \<^verbatim>\<open>get_next_difficulty\<close>, bumps the counter, asks
  \<^verbatim>\<open>_adapt_rule_based\<close> for the next difficulty and appends a record.

  Conventions of the embedding:
  \<^item> A Python \<^verbatim>\<open>float\<close> is a double. Its value is a rational number, positive or negative
    infinity, or not-a-number (\<open>pyfloat\<close>). Comparing a double with a number is exact, and
    false whenever the double is not-a-number.
  \<^item> The three operations of the code that round, \<^verbatim>\<open>int / int\<close>, \<^verbatim>\<open>float * int\<close> and
    \<^verbatim>\<open>numpy.mean\<close>, are parameters of the model (\<open>float_ops\<close>): the theorems hold for
    whatever these operations return. \<open>binary64\<close> is the instance that rounds every
    operation to the nearest double, ties to even, as IEEE 754 does; the model is run with
    it on concrete inputs.
  \<^item> Python's \<^verbatim>\<open>int\<close> is \<open>int\<close>, \<^verbatim>\<open>str\<close> is \<open>string\<close>, a \<^verbatim>\<open>dict\<close> is a map.
  \<^item> A subscript on a dict with a missing key raises \<^verbatim>\<open>KeyError\<close>; that is the \<open>Inl\<close>
    branch of a result. The object's fields are threaded through explicitly, so the state
    left behind by a call that raised is visible as well.
\<close>

subsection \<open>Values and errors\<close>

datatype pykey = StrKey string | IntKey int

datatype error = KeyError pykey

datatype pyfloat = Fin rat | PInf | NInf | NaN

definition fl_less :: "pyfloat \<Rightarrow> rat \<Rightarrow> bool" where
  "fl_less a c = (case a of Fin x \<Rightarrow> x < c | PInf \<Rightarrow> False | NInf \<Rightarrow> True | NaN \<Rightarrow> False)"

definition fl_greater :: "pyfloat \<Rightarrow> rat \<Rightarrow> bool" where
  "fl_greater a c = (case a of Fin x \<Rightarrow> x > c | PInf \<Rightarrow> True | NInf \<Rightarrow> False | NaN \<Rightarrow> False)"

definition fl_le :: "pyfloat \<Rightarrow> rat \<Rightarrow> bool" where
  "fl_le a c = (case a of Fin x \<Rightarrow> x \<le> c | PInf \<Rightarrow> False | NInf \<Rightarrow> True | NaN \<Rightarrow> False)"

definition fl_ge :: "pyfloat \<Rightarrow> rat \<Rightarrow> bool" where
  "fl_ge a c = (case a of Fin x \<Rightarrow> x \<ge> c | PInf \<Rightarrow> True | NInf \<Rightarrow> False | NaN \<Rightarrow> False)"

text \<open>
  The rounding operations the code relies on: \<open>truediv a b\<close> is Python's \<^verbatim>\<open>a / b\<close> on two
  ints (the code divides by the length of a non-empty list only), \<open>mul x k\<close> is
  \<^verbatim>\<open>x * k\<close> for a float and an int (the code multiplies by 100 only), and \<open>np_mean\<close> is
  \<^verbatim>\<open>numpy.mean\<close> of a list of floats (the code calls it on non-empty lists only).
\<close>

record float_ops =
  truediv :: "int \<Rightarrow> int \<Rightarrow> pyfloat"
  mul :: "pyfloat \<Rightarrow> int \<Rightarrow> pyfloat"
  np_mean :: "pyfloat list \<Rightarrow> pyfloat"

definition py_sum :: "bool list \<Rightarrow> int" where
  "py_sum bs = sum_list (map of_bool bs)"

subsection \<open>Double arithmetic\<close>

text \<open>
  Rounding a rational to the nearest double, ties to even: 53 significant bits, exponents
  from \<open>-1022\<close> to \<open>1023\<close>, a fixed spacing of \<open>2 ^ -1074\<close> below \<open>2 ^ -1022\<close>, and infinity
  when the rounded value would reach \<open>2 ^ 1024\<close>. Positive and negative zero are one value.
\<close>

definition pow2 :: "int \<Rightarrow> rat" where
  "pow2 e = (if e \<ge> 0 then 2 ^ nat e else 1 / 2 ^ nat (- e))"

function bit_length :: "int \<Rightarrow> int" where
  "bit_length n = (if n \<le> 0 then 0 else 1 + bit_length (n div 2))"
  by pat_completeness auto
termination
  by (relation "measure nat") auto

text \<open>For \<open>a > 0\<close>: the exponent \<open>e\<close> with \<open>2 ^ e \<le> a < 2 ^ (e + 1)\<close>.\<close>

definition floor_log2 :: "rat \<Rightarrow> int" where
  "floor_log2 a =
     (case quotient_of a of (p, q) \<Rightarrow>
        let e = bit_length p - bit_length q
        in if pow2 e \<le> a then e else e - 1)"

definition round_half_even :: "rat \<Rightarrow> int" where
  "round_half_even x =
     (let f = \<lfloor>x\<rfloor>; d = x - of_int f
      in if d < 1 / 2 then f
         else if d > 1 / 2 then f + 1
         else if even f then f else f + 1)"

definition round64 :: "rat \<Rightarrow> pyfloat" where
  "round64 x =
     (if x = 0 then Fin 0
      else
        let a = \<bar>x\<bar>;
            e = max (floor_log2 a) (- 1022);
            q = pow2 (e - 52);
            m = round_half_even (a / q)
        in if e > 1023 \<or> (e = 1023 \<and> m \<ge> 2 ^ 53)
             then (if x > 0 then PInf else NInf)
           else Fin ((if x > 0 then 1 else - 1) * of_int m * q))"

definition fl_add :: "pyfloat \<Rightarrow> pyfloat \<Rightarrow> pyfloat" where
  "fl_add x y =
     (case (x, y) of
        (Fin a, Fin b) \<Rightarrow> round64 (a + b)
      | (NaN, _) \<Rightarrow> NaN
      | (_, NaN) \<Rightarrow> NaN
      | (PInf, NInf) \<Rightarrow> NaN
      | (NInf, PInf) \<Rightarrow> NaN
      | (PInf, _) \<Rightarrow> PInf
      | (_, PInf) \<Rightarrow> PInf
      | (NInf, _) \<Rightarrow> NInf
      | (_, NInf) \<Rightarrow> NInf)"

text \<open>\<^verbatim>\<open>a / b\<close> on ints with \<open>b\<close> not 0: the exact quotient, rounded once.\<close>

definition py_truediv :: "int \<Rightarrow> int \<Rightarrow> pyfloat" where
  "py_truediv a b = round64 (of_int a / of_int b)"

text \<open>
  \<^verbatim>\<open>x * k\<close> for a float \<open>x\<close> and an int \<open>k\<close> that is itself a double, as 100 is: the exact
  product, rounded once.
\<close>

definition py_float_mul :: "pyfloat \<Rightarrow> int \<Rightarrow> pyfloat" where
  "py_float_mul x k =
     (case x of
        Fin a \<Rightarrow> round64 (a * of_int k)
      | PInf \<Rightarrow> (if k > 0 then PInf else if k < 0 then NInf else NaN)
      | NInf \<Rightarrow> (if k > 0 then NInf else if k < 0 then PInf else NaN)
      | NaN \<Rightarrow> NaN)"

text \<open>
  \<^verbatim>\<open>numpy.mean\<close> of a list of doubles is numpy's sum divided by the count. numpy adds
  fewer than eight numbers from left to right; up to 128 numbers go into eight running
  sums, one for each position modulo 8, which are then added in pairs, and what is left
  over after the last full block of eight is added at the end; a longer list is split in
  two, the first part a multiple of eight long, and the two sums are added.
\<close>

function unrolled_blocks :: "pyfloat list \<Rightarrow> pyfloat list \<Rightarrow> pyfloat list \<times> pyfloat list" where
  "unrolled_blocks r xs =
     (if 8 \<le> length xs
      then unrolled_blocks (map2 fl_add r (take 8 xs)) (drop 8 xs)
      else (r, xs))"
  by pat_completeness auto
termination
  by (relation "measure (\<lambda>(r, xs). length xs)") auto

function pairwise_sum :: "pyfloat list \<Rightarrow> pyfloat" where
  "pairwise_sum a =
     (if length a < 8 then foldl fl_add (Fin 0) a
      else if length a \<le> 128 then
        (case unrolled_blocks (take 8 a) (drop 8 a) of
           (r, rest) \<Rightarrow>
             foldl fl_add
               (fl_add (fl_add (fl_add (r ! 0) (r ! 1)) (fl_add (r ! 2) (r ! 3)))
                       (fl_add (fl_add (r ! 4) (r ! 5)) (fl_add (r ! 6) (r ! 7))))
               rest)
      else
        fl_add (pairwise_sum (take (length a div 2 - length a div 2 mod 8) a))
               (pairwise_sum (drop (length a div 2 - length a div 2 mod 8) a)))"
  by pat_completeness auto
termination
  by (relation "measure length") auto

definition fl_div_count :: "pyfloat \<Rightarrow> nat \<Rightarrow> pyfloat" where
  "fl_div_count s n =
     (case s of
        Fin a \<Rightarrow> round64 (a / of_nat n)
      | PInf \<Rightarrow> PInf
      | NInf \<Rightarrow> NInf
      | NaN \<Rightarrow> NaN)"

definition numpy_mean :: "pyfloat list \<Rightarrow> pyfloat" where
  "numpy_mean a = fl_div_count (pairwise_sum a) (length a)"

definition binary64 :: float_ops where
  "binary64 = \<lparr>truediv = py_truediv, mul = py_float_mul, np_mean = numpy_mean\<rparr>"

subsection \<open>Configuration, records and engine state\<close>

record AdaptationConfig =
  rule_based_thresholds :: "string \<rightharpoonup> rat"
  lookback_window :: int
  min_attempts_before_change :: int

definition default_config :: AdaptationConfig where
  "default_config =
     \<lparr>rule_based_thresholds = [''high'' \<mapsto> 75, ''low'' \<mapsto> 50],
      lookback_window = 5,
      min_attempts_before_change = 3\<rparr>"

text \<open>
  One entry of \<^verbatim>\<open>self.history\<close>: the dict with the keys \<^verbatim>\<open>attempt\<close>, \<^verbatim>\<open>from\<close>,
  \<^verbatim>\<open>to\<close>, \<^verbatim>\<open>accuracy\<close> and \<^verbatim>\<open>avg_time\<close>.
\<close>

record DecisionRecord =
  rec_attempt :: int
  rec_from :: string
  rec_to :: string
  rec_accuracy :: pyfloat
  rec_avg_time :: pyfloat

record AdaptiveEngine =
  config :: AdaptationConfig
  attempt_count :: int
  history :: "DecisionRecord list"

definition DIFFICULTY_LEVELS :: "string list" where
  "DIFFICULTY_LEVELS = [''EASY'', ''MEDIUM'', ''HARD'']"

definition DIFFICULTY_MAP :: "string \<rightharpoonup> int" where
  "DIFFICULTY_MAP = map_of [(''EASY'', 0), (''MEDIUM'', 1), (''HARD'', 2)]"

definition REVERSE_MAP :: "int \<rightharpoonup> string" where
  "REVERSE_MAP = map_of [(0, ''EASY''), (1, ''MEDIUM''), (2, ''HARD'')]"

subsection \<open>Operations\<close>

text \<open>
  \<^verbatim>\<open>__init__\<close>: \<^verbatim>\<open>config or AdaptationConfig()\<close> takes the default when no config is
  passed (a dataclass instance is always truthy). Nothing is checked and nothing raises.
\<close>

definition init :: "AdaptationConfig option \<Rightarrow> AdaptiveEngine" where
  "init cfg =
     \<lparr>config = (case cfg of None \<Rightarrow> default_config | Some c \<Rightarrow> c),
      attempt_count = 0,
      history = []\<rparr>"

text \<open>The last line of \<^verbatim>\<open>_adapt_rule_based\<close>: \<^verbatim>\<open>return self.REVERSE_MAP[next_level]\<close>.\<close>

definition return_level :: "int \<Rightarrow> error + string" where
  "return_level next_level =
     (case REVERSE_MAP next_level of
        None \<Rightarrow> Inl (KeyError (IntKey next_level))
      | Some d \<Rightarrow> Inr d)"

text \<open>
  \<^verbatim>\<open>_adapt_rule_based\<close>. The accuracy and the average time are doubles, computed with
  the operations of \<open>ops\<close>. The subscripts are evaluated where the source evaluates them:
  the difficulty rank first, \<^verbatim>\<open>thresholds['high']\<close> in the first test, and
  \<^verbatim>\<open>thresholds['low']\<close> only when the first test has failed.
\<close>

definition adapt_rule_based ::
  "float_ops \<Rightarrow> AdaptationConfig \<Rightarrow> string \<Rightarrow> bool list \<Rightarrow> pyfloat list \<Rightarrow> error + string" where
  "adapt_rule_based ops cfg current_difficulty recent_performance recent_times =
     (if recent_performance = [] then Inr current_difficulty
      else if int (length recent_performance) < min_attempts_before_change cfg
        then Inr current_difficulty
      else
        let accuracy =
              mul ops (truediv ops (py_sum recent_performance)
                                   (int (length recent_performance))) 100;
            avg_time = (if recent_times \<noteq> [] then np_mean ops recent_times else PInf);
            thresholds = rule_based_thresholds cfg
        in case DIFFICULTY_MAP current_difficulty of
             None \<Rightarrow> Inl (KeyError (StrKey current_difficulty))
           | Some current_level \<Rightarrow>
               (case thresholds ''high'' of
                  None \<Rightarrow> Inl (KeyError (StrKey ''high''))
                | Some high \<Rightarrow>
                    if fl_ge accuracy high \<and> fl_less avg_time 10
                      then return_level (min (current_level + 1) 2)
                    else
                      (case thresholds ''low'' of
                         None \<Rightarrow> Inl (KeyError (StrKey ''low''))
                       | Some low \<Rightarrow>
                           if fl_le accuracy low \<or> fl_greater avg_time 20
                             then return_level (max (current_level - 1) 0)
                           else if fl_greater accuracy 65 \<and> fl_less avg_time 12
                             then return_level (min (current_level + 1) 2)
                           else if fl_less accuracy 45 \<or> fl_greater avg_time 18
                             then return_level (max (current_level - 1) 0)
                           else return_level current_level)))"

text \<open>
  \<^verbatim>\<open>get_next_difficulty\<close> returns the result together with the engine afterwards. The
  counter is incremented before \<^verbatim>\<open>_adapt_rule_based\<close> runs, so it stays incremented when
  that call raises; the record is appended only when it returned.
\<close>

definition get_next_difficulty ::
  "float_ops \<Rightarrow> AdaptiveEngine \<Rightarrow> string \<Rightarrow> bool list \<Rightarrow> pyfloat list
     \<Rightarrow> (error + string) \<times> AdaptiveEngine" where
  "get_next_difficulty ops self current_difficulty recent_performance recent_times =
     (let self1 = self\<lparr>attempt_count := attempt_count self + 1\<rparr>
      in case adapt_rule_based ops (config self1) current_difficulty
                recent_performance recent_times of
           Inl e \<Rightarrow> (Inl e, self1)
         | Inr next_diff \<Rightarrow>
             (Inr next_diff,
              self1\<lparr>history := history self1 @
                [\<lparr>rec_attempt = attempt_count self1,
                  rec_from = current_difficulty,
                  rec_to = next_diff,
                  rec_accuracy =
                    (if recent_performance \<noteq> []
                     then mul ops (truediv ops (py_sum recent_performance)
                                               (int (length recent_performance))) 100
                     else Fin 0),
                  rec_avg_time =
                    (if recent_times \<noteq> [] then np_mean ops recent_times else Fin 0)\<rparr>]\<rparr>))"

definition get_adaptation_history :: "AdaptiveEngine \<Rightarrow> DecisionRecord list" where
  "get_adaptation_history self = history self"

definition reset_history :: "AdaptiveEngine \<Rightarrow> AdaptiveEngine" where
  "reset_history self = self\<lparr>history := [], attempt_count := 0\<rparr>"

subsection \<open>The specification's reading of the decision\<close>

text \<open>
  The definitions of this subsection follow the words of the specification, not the code;
  the theorems below compare the two. The next level is the outcome of the tiers A, B, C
  taken in that order. The accuracy is the count of true flags over the length, times 100;
  the average time used for the decision is the mean, or positive infinity for an empty
  time list; the average time stored in a record is the mean, or 0 for an empty time list.
  These quantities come twice: as the doubles that the operations of \<open>ops\<close> give
  (\<open>computed_accuracy\<close>, \<open>computed_avg_time\<close>, \<open>recorded_avg_time\<close>), and as exact
  numbers (\<open>spec_accuracy\<close>, \<open>spec_avg_time\<close>).
\<close>

definition spec_next_level :: "rat \<Rightarrow> rat \<Rightarrow> int \<Rightarrow> pyfloat \<Rightarrow> pyfloat \<Rightarrow> int" where
  "spec_next_level high low level accuracy avg_time =
     (if fl_ge accuracy high \<and> fl_less avg_time 10 then min (level + 1) 2
      else if fl_le accuracy low \<or> fl_greater avg_time 20 then max (level - 1) 0
      else if fl_greater accuracy 65 \<and> fl_less avg_time 12 then min (level + 1) 2
      else if fl_less accuracy 45 \<or> fl_greater avg_time 18 then max (level - 1) 0
      else level)"

definition computed_accuracy :: "float_ops \<Rightarrow> bool list \<Rightarrow> pyfloat" where
  "computed_accuracy ops cs =
     mul ops (truediv ops (int (length (filter (\<lambda>c. c) cs))) (int (length cs))) 100"

definition computed_avg_time :: "float_ops \<Rightarrow> pyfloat list \<Rightarrow> pyfloat" where
  "computed_avg_time ops ts = (if ts = [] then PInf else np_mean ops ts)"

definition recorded_avg_time :: "float_ops \<Rightarrow> pyfloat list \<Rightarrow> pyfloat" where
  "recorded_avg_time ops ts = (if ts = [] then Fin 0 else np_mean ops ts)"

definition spec_accuracy :: "bool list \<Rightarrow> rat" where
  "spec_accuracy cs = of_nat (length (filter (\<lambda>c. c) cs)) / of_nat (length cs) * 100"

definition spec_avg_time :: "rat list \<Rightarrow> pyfloat" where
  "spec_avg_time ts = (if ts = [] then PInf else Fin (sum_list ts / of_nat (length ts)))"

text \<open>
  The invariant the specification puts on a configuration: both thresholds present and
  within 0 and 100, the low one below the high one, and at least one attempt required.
\<close>

definition spec_config_invariant :: "AdaptationConfig \<Rightarrow> bool" where
  "spec_config_invariant c =
     (case rule_based_thresholds c ''high'' of
        None \<Rightarrow> False
      | Some high \<Rightarrow>
          (case rule_based_thresholds c ''low'' of
             None \<Rightarrow> False
           | Some low \<Rightarrow>
               0 \<le> low \<and> low \<le> 100 \<and> 0 \<le> high \<and> high \<le> 100 \<and> low < high
               \<and> 1 \<le> min_attempts_before_change c))"

section \<open>Auxiliary facts\<close>

lemma py_sum_count: "py_sum bs = int (length (filter (\<lambda>c. c) bs))"
  by (induction bs) (simp_all add: py_sum_def)

lemma DIFFICULTY_MAP_cases:
  "DIFFICULTY_MAP s = Some l \<Longrightarrow>
     (s = ''EASY'' \<and> l = 0) \<or> (s = ''MEDIUM'' \<and> l = 1) \<or> (s = ''HARD'' \<and> l = 2)"
  by (auto simp: DIFFICULTY_MAP_def split: if_splits)

lemma DIFFICULTY_MAP_range: "DIFFICULTY_MAP s = Some l \<Longrightarrow> 0 \<le> l \<and> l \<le> 2"
  using DIFFICULTY_MAP_cases by fastforce

lemma DIFFICULTY_MAP_levels: "(s \<in> set DIFFICULTY_LEVELS) = (\<exists>l. DIFFICULTY_MAP s = Some l)"
  by (auto simp: DIFFICULTY_MAP_def DIFFICULTY_LEVELS_def)

text \<open>The reverse lookup succeeds on the ranks 0, 1 and 2 and inverts the rank lookup.\<close>

lemma return_level_in_range:
  assumes "0 \<le> n" and "n \<le> 2"
  shows "\<exists>d. REVERSE_MAP n = Some d \<and> return_level n = Inr d \<and> DIFFICULTY_MAP d = Some n"
proof -
  from assms have "n = 0 \<or> n = 1 \<or> n = 2" by arith
  then show ?thesis
    by (auto simp: return_level_def REVERSE_MAP_def DIFFICULTY_MAP_def)
qed

text \<open>The two early returns of \<^verbatim>\<open>_adapt_rule_based\<close>.\<close>

lemma adapt_rule_based_short:
  assumes "recent_performance = []
           \<or> int (length recent_performance) < min_attempts_before_change cfg"
  shows "adapt_rule_based ops cfg current_difficulty recent_performance recent_times
           = Inr current_difficulty"
  using assms by (auto simp: adapt_rule_based_def)

text \<open>
  Past the early returns, with a known difficulty and both thresholds in the dict, the
  code's chain of tests is the specification's tier algorithm on the doubles the code
  has computed.
\<close>

lemma adapt_rule_based_tiers:
  assumes "recent_performance \<noteq> []"
    and "min_attempts_before_change cfg \<le> int (length recent_performance)"
    and "DIFFICULTY_MAP current_difficulty = Some level"
    and "rule_based_thresholds cfg ''high'' = Some high"
    and "rule_based_thresholds cfg ''low'' = Some low"
  shows "adapt_rule_based ops cfg current_difficulty recent_performance recent_times =
           return_level (spec_next_level high low level
             (computed_accuracy ops recent_performance) (computed_avg_time ops recent_times))"
  using assms
  by (simp add: adapt_rule_based_def spec_next_level_def computed_accuracy_def
        computed_avg_time_def py_sum_count Let_def)

lemma spec_next_level_range:
  assumes "0 \<le> level" and "level \<le> 2"
  shows "0 \<le> spec_next_level high low level a t \<and> spec_next_level high low level a t \<le> 2"
  using assms by (simp add: spec_next_level_def)

text \<open>What a call leaves behind when \<^verbatim>\<open>_adapt_rule_based\<close> returns, and when it raises.\<close>

lemma get_next_difficulty_returns:
  assumes "adapt_rule_based ops (config self) current_difficulty recent_performance
             recent_times = Inr next_diff"
  shows "get_next_difficulty ops self current_difficulty recent_performance recent_times =
           (Inr next_diff,
            self\<lparr>attempt_count := attempt_count self + 1,
                 history := history self @
                   [\<lparr>rec_attempt = attempt_count self + 1,
                     rec_from = current_difficulty,
                     rec_to = next_diff,
                     rec_accuracy =
                       (if recent_performance = [] then Fin 0
                        else computed_accuracy ops recent_performance),
                     rec_avg_time = recorded_avg_time ops recent_times\<rparr>]\<rparr>)"
  using assms
  by (simp add: get_next_difficulty_def Let_def computed_accuracy_def recorded_avg_time_def
        py_sum_count)

lemma get_next_difficulty_raises:
  assumes "adapt_rule_based ops (config self) current_difficulty recent_performance
             recent_times = Inl e"
  shows "get_next_difficulty ops self current_difficulty recent_performance recent_times =
           (Inl e, self\<lparr>attempt_count := attempt_count self + 1\<rparr>)"
  using assms by (simp add: get_next_difficulty_def Let_def)

text \<open>The counter is incremented and the config kept by every call, raising or not.\<close>

lemma get_next_difficulty_counter:
  "attempt_count (snd (get_next_difficulty ops self current_difficulty recent_performance
                         recent_times)) = attempt_count self + 1
   \<and> config (snd (get_next_difficulty ops self current_difficulty recent_performance
                     recent_times)) = config self"
  by (simp add: get_next_difficulty_def Let_def split: sum.splits)

text \<open>
  With a known difficulty and both thresholds in the dict, \<^verbatim>\<open>_adapt_rule_based\<close> returns
  a difficulty whose rank is 0, 1 or 2, on every path and whatever the arithmetic gives.
\<close>

lemma adapt_rule_based_level:
  assumes "DIFFICULTY_MAP current_difficulty = Some level"
    and "rule_based_thresholds cfg ''high'' = Some high"
    and "rule_based_thresholds cfg ''low'' = Some low"
  shows "\<exists>n d. adapt_rule_based ops cfg current_difficulty recent_performance recent_times
                  = Inr d
           \<and> DIFFICULTY_MAP d = Some n \<and> REVERSE_MAP n = Some d \<and> 0 \<le> n \<and> n \<le> 2"
proof (cases "recent_performance = []
              \<or> int (length recent_performance) < min_attempts_before_change cfg")
  case True
  from assms(1) have r: "0 \<le> level \<and> level \<le> 2" by (rule DIFFICULTY_MAP_range)
  from r obtain d where d: "REVERSE_MAP level = Some d" "DIFFICULTY_MAP d = Some level"
    using return_level_in_range by blast
  from assms(1) d have "d = current_difficulty"
    using DIFFICULTY_MAP_cases[OF assms(1)] DIFFICULTY_MAP_cases[OF d(2)] by auto
  with True d r assms(1) show ?thesis
    by (auto simp: adapt_rule_based_short)
next
  case False
  then have p: "recent_performance \<noteq> []"
    "min_attempts_before_change cfg \<le> int (length recent_performance)" by auto
  let ?n = "spec_next_level high low level
              (computed_accuracy ops recent_performance)
              (computed_avg_time ops recent_times)"
  from assms(1) have "0 \<le> level \<and> level \<le> 2" by (rule DIFFICULTY_MAP_range)
  then have r: "0 \<le> ?n" "?n \<le> 2" using spec_next_level_range by auto
  then obtain d where "REVERSE_MAP ?n = Some d" "return_level ?n = Inr d"
    "DIFFICULTY_MAP d = Some ?n"
    using return_level_in_range by blast
  with r adapt_rule_based_tiers[OF p assms] show ?thesis by auto
qed

text \<open>
  Values of the double arithmetic that the examples below use. All but one are exact:
  11 / 20 rounds up, and 100 times the rounded quotient is the next double after 55.
\<close>

lemma binary64_values:
  shows "py_float_mul (py_truediv 4 4) 100 = Fin 100"
    and "py_float_mul (py_truediv 3 3) 100 = Fin 100"
    and "py_float_mul (py_truediv 1 2) 100 = Fin 50"
    and "py_float_mul (py_truediv 2 4) 100 = Fin 50"
    and "py_float_mul (py_truediv 11 20) 100 = Fin (55 + 1 / 2 ^ 47)"
    and "numpy_mean [Fin 5, Fin 6, Fin 4, Fin 7] = Fin (11 / 2)"
    and "numpy_mean [Fin 4, Fin 8] = Fin 6"
    and "numpy_mean [Fin 5, Fin 5, Fin 5, Fin 5] = Fin 5"
    and "numpy_mean [Fin 5] = Fin 5"
    and "numpy_mean [Fin 15] = Fin 15"
    and "numpy_mean [Fin (6755399441055743 / 562949953421312), Fin 12, Fin 12] = Fin 12"
  by code_simp+

lemma binary64_ops:
  "truediv binary64 = py_truediv" "mul binary64 = py_float_mul" "np_mean binary64 = numpy_mean"
  by (simp_all add: binary64_def)

text \<open>
  The docstring of \<^verbatim>\<open>_adapt_rule_based\<close> speaks of low accuracy as below 50 percent; the
  test in the code is \<^verbatim>\<open><=\<close>, as in the specification. Two right answers out of four in
  5 seconds each are an accuracy of exactly 50 and lower MEDIUM to EASY.
\<close>

lemma accuracy_at_low_threshold:
  "fst (get_next_difficulty binary64 (init None) ''MEDIUM''
          [True, False, True, False] [Fin 5, Fin 5, Fin 5, Fin 5]) = Inr ''EASY''"
  by (simp add: get_next_difficulty_def adapt_rule_based_def Let_def init_def
        default_config_def py_sum_def binary64_ops binary64_values DIFFICULTY_MAP_def
        fl_ge_def fl_le_def fl_less_def fl_greater_def return_level_def REVERSE_MAP_def)

text \<open>
  Rounding decides at a boundary. The first time below is \<open>12 - 2 ^ -49\<close>, the double
  next below 12 (\<open>562949953421312\<close> is \<open>2 ^ 49\<close>). The three times have a mean below 12,
  but numpy's sum rounds up and its mean is 12, so the test \<^verbatim>\<open>avg_time < 12\<close> fails and
  MEDIUM stays.
\<close>

lemma mean_rounds_to_boundary:
  "fst (get_next_difficulty binary64 (init None) ''MEDIUM''
          [True, True, True] [Fin (6755399441055743 / 562949953421312), Fin 12, Fin 12]) = Inr ''MEDIUM''"
  by (simp add: get_next_difficulty_def adapt_rule_based_def Let_def init_def
        default_config_def py_sum_def binary64_ops binary64_values DIFFICULTY_MAP_def
        fl_ge_def fl_le_def fl_less_def fl_greater_def return_level_def REVERSE_MAP_def)

section \<open>The decision follows the tier algorithm\<close>

text \<open>
  Claim C1, as the code has it. For a current difficulty that is EASY, MEDIUM or HARD (rank
  \<open>level\<close>), a config whose thresholds dict holds \<^verbatim>\<open>high\<close> and \<^verbatim>\<open>low\<close>, and a non-empty
  correctness list of at least \<open>min_attempts_before_change\<close> entries, the decision
  operation returns the difficulty of rank \<open>spec_next_level\<close>: tier A, then tier B, then
  tier C, with the comparisons strict or not as the specification writes them, applied to
  the accuracy and the average time as the code computes them in doubles. The accuracy is
  the count of true over the length, rounded, times 100, rounded again; the average time is
  numpy's mean of the times, or positive infinity for no times. The list is non-empty as
  soon as the config requires at least one attempt.
\<close>

theorem get_next_difficulty_tier_algorithm:
  assumes "DIFFICULTY_MAP current_difficulty = Some level"
    and "rule_based_thresholds (config self) ''high'' = Some high_accuracy_threshold"
    and "rule_based_thresholds (config self) ''low'' = Some low_accuracy_threshold"
    and "recent_performance \<noteq> []"
    and "min_attempts_before_change (config self) \<le> int (length recent_performance)"
  shows "\<exists>d. REVERSE_MAP (spec_next_level high_accuracy_threshold low_accuracy_threshold level
                 (computed_accuracy ops recent_performance)
                 (computed_avg_time ops recent_times)) = Some d
             \<and> fst (get_next_difficulty ops self current_difficulty
                      recent_performance recent_times) = Inr d"
proof -
  let ?n = "spec_next_level high_accuracy_threshold low_accuracy_threshold level
              (computed_accuracy ops recent_performance)
              (computed_avg_time ops recent_times)"
  from assms(1) have "0 \<le> level \<and> level \<le> 2" by (rule DIFFICULTY_MAP_range)
  then have "0 \<le> ?n" "?n \<le> 2" using spec_next_level_range by auto
  then obtain d where d: "REVERSE_MAP ?n = Some d" "return_level ?n = Inr d"
    using return_level_in_range by blast
  have "adapt_rule_based ops (config self) current_difficulty recent_performance recent_times
          = Inr d"
    using adapt_rule_based_tiers[OF assms(4,5,1,2,3)] d(2) by simp
  then have "fst (get_next_difficulty ops self current_difficulty
                    recent_performance recent_times) = Inr d"
    by (simp add: get_next_difficulty_returns)
  with d(1) show ?thesis by blast
qed

text \<open>
  The specification's first scenario: MEDIUM with four correct answers in 5, 6, 4 and 7
  seconds under the default thresholds is tier A and gives HARD.
\<close>

theorem get_next_difficulty_tier_algorithm_witness:
  "DIFFICULTY_MAP ''MEDIUM'' = Some 1
   \<and> rule_based_thresholds (config (init None)) ''high'' = Some 75
   \<and> rule_based_thresholds (config (init None)) ''low'' = Some 50
   \<and> [True, True, True, True] \<noteq> []
   \<and> min_attempts_before_change (config (init None)) \<le> int (length [True, True, True, True])
   \<and> spec_next_level 75 50 1 (computed_accuracy binary64 [True, True, True, True])
        (computed_avg_time binary64 [Fin 5, Fin 6, Fin 4, Fin 7]) = 2
   \<and> fst (get_next_difficulty binary64 (init None) ''MEDIUM'' [True, True, True, True]
            [Fin 5, Fin 6, Fin 4, Fin 7]) = Inr ''HARD''"
proof -
  have h1: "DIFFICULTY_MAP ''MEDIUM'' = Some 1" by (simp add: DIFFICULTY_MAP_def)
  have h2: "rule_based_thresholds (config (init None)) ''high'' = Some 75"
    by (simp add: init_def default_config_def)
  have h3: "rule_based_thresholds (config (init None)) ''low'' = Some 50"
    by (simp add: init_def default_config_def)
  have h4: "[True, True, True, True] \<noteq> []" by simp
  have h5: "min_attempts_before_change (config (init None))
              \<le> int (length [True, True, True, True])"
    by (simp add: init_def default_config_def)
  have n: "spec_next_level 75 50 1 (computed_accuracy binary64 [True, True, True, True])
             (computed_avg_time binary64 [Fin 5, Fin 6, Fin 4, Fin 7]) = 2"
    by (simp add: spec_next_level_def computed_accuracy_def computed_avg_time_def
          binary64_ops binary64_values fl_ge_def fl_less_def)
  from get_next_difficulty_tier_algorithm[OF h1 h2 h3 h4 h5,
         of binary64 "[Fin 5, Fin 6, Fin 4, Fin 7]"] n
  have "fst (get_next_difficulty binary64 (init None) ''MEDIUM'' [True, True, True, True]
               [Fin 5, Fin 6, Fin 4, Fin 7]) = Inr ''HARD''"
    by (auto simp: REVERSE_MAP_def)
  with h1 h2 h3 h4 h5 n show ?thesis by blast
qed

text \<open>
  The claim as it was stated takes the accuracy to be the exact quotient times 100 and the
  average time to be the exact mean. With thresholds 75 and 55, MEDIUM, eleven right
  answers out of twenty and one time of 15 seconds, the exact accuracy is 55, which is
  tier B and would give EASY. The code computes 11 / 20 as a double and multiplies by 100:
  the result is the next double above 55, no tier applies, and MEDIUM stays.
\<close>

theorem tier_algorithm_exact_accuracy_counterexample:
  "fst (get_next_difficulty binary64
          (init (Some \<lparr>rule_based_thresholds = map_of [(''high'', 75), (''low'', 55)],
                       lookback_window = 5, min_attempts_before_change = 3\<rparr>))
          ''MEDIUM''
          [True, True, True, True, True, True, True, True, True, True, True,
           False, False, False, False, False, False, False, False, False]
          [Fin 15]) = Inr ''MEDIUM''
   \<and> spec_accuracy
         [True, True, True, True, True, True, True, True, True, True, True,
          False, False, False, False, False, False, False, False, False] = 55
   \<and> spec_avg_time [15] = Fin 15
   \<and> REVERSE_MAP (spec_next_level 75 55 1 (Fin 55) (Fin 15)) = Some ''EASY''"
  by (simp add: get_next_difficulty_def adapt_rule_based_def Let_def init_def py_sum_def
        binary64_ops binary64_values DIFFICULTY_MAP_def fl_ge_def fl_le_def fl_less_def
        fl_greater_def return_level_def REVERSE_MAP_def spec_accuracy_def spec_avg_time_def
        spec_next_level_def)

section \<open>Windows that are too short\<close>

text \<open>
  Claim C2. For every config, every current difficulty (any string) and every time list, a
  non-empty correctness list shorter than \<open>min_attempts_before_change\<close> makes the decision
  operation return the current difficulty unchanged; the record it appends still holds the
  accuracy computed from the supplied correctness list and the average computed from the
  supplied times (0 when no times were supplied).
\<close>

theorem get_next_difficulty_short_window:
  assumes "recent_performance \<noteq> []"
    and "int (length recent_performance) < min_attempts_before_change (config self)"
  shows "get_next_difficulty ops self current_difficulty recent_performance recent_times =
           (Inr current_difficulty,
            self\<lparr>attempt_count := attempt_count self + 1,
                 history := history self @
                   [\<lparr>rec_attempt = attempt_count self + 1,
                     rec_from = current_difficulty,
                     rec_to = current_difficulty,
                     rec_accuracy = computed_accuracy ops recent_performance,
                     rec_avg_time = recorded_avg_time ops recent_times\<rparr>]\<rparr>)"
proof -
  have "adapt_rule_based ops (config self) current_difficulty recent_performance recent_times
          = Inr current_difficulty"
    using assms(2) by (simp add: adapt_rule_based_short)
  from get_next_difficulty_returns[OF this] assms(1) show ?thesis by simp
qed

text \<open>Two answers, one of them right, under the default config that asks for three.\<close>

theorem get_next_difficulty_short_window_witness:
  "[True, False] \<noteq> []
   \<and> int (length [True, False]) < min_attempts_before_change (config (init None))
   \<and> get_next_difficulty binary64 (init None) ''HARD'' [True, False] [Fin 4, Fin 8] =
       (Inr ''HARD'',
        \<lparr>config = default_config, attempt_count = 1,
         history = [\<lparr>rec_attempt = 1, rec_from = ''HARD'', rec_to = ''HARD'',
                     rec_accuracy = Fin 50, rec_avg_time = Fin 6\<rparr>]\<rparr>)"
proof -
  have h1: "[True, False] \<noteq> []" by simp
  have h2: "int (length [True, False]) < min_attempts_before_change (config (init None))"
    by (simp add: init_def default_config_def)
  from get_next_difficulty_short_window[OF h1 h2, of binary64 "''HARD''" "[Fin 4, Fin 8]"] h1 h2
  show ?thesis
    by (simp add: init_def computed_accuracy_def recorded_avg_time_def binary64_ops
          binary64_values)
qed

section \<open>Counter and history move together\<close>

text \<open>
  Claim C3. For every call whose current difficulty is EASY, MEDIUM or HARD, under a config
  whose thresholds dict holds \<^verbatim>\<open>high\<close> and \<^verbatim>\<open>low\<close>, whatever the two lists are and
  whichever branch is taken: the call returns, the attempt counter has grown by exactly 1,
  the history has grown by exactly one record, and that record carries the new counter
  value as its sequence number, the input difficulty as \<^verbatim>\<open>from\<close> and the returned
  difficulty as \<^verbatim>\<open>to\<close>. Nothing else in the engine changes.
\<close>

theorem get_next_difficulty_counter_and_history:
  assumes "current_difficulty \<in> set DIFFICULTY_LEVELS"
    and "rule_based_thresholds (config self) ''high'' = Some high"
    and "rule_based_thresholds (config self) ''low'' = Some low"
  shows "\<exists>next_diff r.
           get_next_difficulty ops self current_difficulty recent_performance recent_times =
             (Inr next_diff,
              self\<lparr>attempt_count := attempt_count self + 1, history := history self @ [r]\<rparr>)
           \<and> rec_attempt r = attempt_count self + 1
           \<and> rec_from r = current_difficulty
           \<and> rec_to r = next_diff"
proof -
  let ?r = "\<lambda>d. \<lparr>rec_attempt = attempt_count self + 1,
                 rec_from = current_difficulty,
                 rec_to = d,
                 rec_accuracy =
                   (if recent_performance = [] then Fin 0
                    else computed_accuracy ops recent_performance),
                 rec_avg_time = recorded_avg_time ops recent_times\<rparr>"
  from assms(1) obtain level where "DIFFICULTY_MAP current_difficulty = Some level"
    by (auto simp: DIFFICULTY_MAP_levels)
  from adapt_rule_based_level[OF this assms(2,3)] obtain d where
    "adapt_rule_based ops (config self) current_difficulty recent_performance recent_times
       = Inr d"
    by blast
  then have "get_next_difficulty ops self current_difficulty recent_performance recent_times =
      (Inr d, self\<lparr>attempt_count := attempt_count self + 1, history := history self @ [?r d]\<rparr>)"
    by (rule get_next_difficulty_returns)
  moreover have "rec_attempt (?r d) = attempt_count self + 1"
    and "rec_from (?r d) = current_difficulty" and "rec_to (?r d) = d" by simp_all
  ultimately show ?thesis by blast
qed

text \<open>The second scenario of the specification, on a fresh engine: MEDIUM drops to EASY.\<close>

theorem get_next_difficulty_counter_and_history_witness:
  "''MEDIUM'' \<in> set DIFFICULTY_LEVELS
   \<and> rule_based_thresholds (config (init None)) ''high'' = Some 75
   \<and> rule_based_thresholds (config (init None)) ''low'' = Some 50
   \<and> (\<exists>next_diff r.
        get_next_difficulty binary64 (init None) ''MEDIUM'' [False, False, False, True]
            [Fin 25, Fin 22, Fin 21, Fin 8] =
          (Inr next_diff,
           (init None)\<lparr>attempt_count := attempt_count (init None) + 1,
                       history := history (init None) @ [r]\<rparr>)
        \<and> rec_attempt r = 1 \<and> rec_from r = ''MEDIUM'' \<and> rec_to r = next_diff)"
proof -
  have h1: "''MEDIUM'' \<in> set DIFFICULTY_LEVELS" by (simp add: DIFFICULTY_LEVELS_def)
  have h2: "rule_based_thresholds (config (init None)) ''high'' = Some 75"
    by (simp add: init_def default_config_def)
  have h3: "rule_based_thresholds (config (init None)) ''low'' = Some 50"
    by (simp add: init_def default_config_def)
  have c: "attempt_count (init None) + 1 = 1" by (simp add: init_def)
  from get_next_difficulty_counter_and_history[OF h1 h2 h3,
         of binary64 "[False, False, False, True]" "[Fin 25, Fin 22, Fin 21, Fin 8]"]
  show ?thesis unfolding c using h1 h2 h3 by blast
qed

section \<open>An empty correctness list\<close>

text \<open>
  Claim C4, as the code has it. For every current difficulty (any string) and every time
  list, a call with an empty correctness list returns the current difficulty unchanged,
  increments the attempt counter and appends a record whose accuracy is 0 and whose average
  time is the mean of the supplied times, which is 0 only when no times were supplied.
\<close>

theorem get_next_difficulty_empty_window:
  "get_next_difficulty ops self current_difficulty [] recent_times =
     (Inr current_difficulty,
      self\<lparr>attempt_count := attempt_count self + 1,
           history := history self @
             [\<lparr>rec_attempt = attempt_count self + 1,
               rec_from = current_difficulty,
               rec_to = current_difficulty,
               rec_accuracy = Fin 0,
               rec_avg_time = recorded_avg_time ops recent_times\<rparr>]\<rparr>)
   \<and> recorded_avg_time ops [] = Fin 0"
proof -
  have "adapt_rule_based ops (config self) current_difficulty [] recent_times
          = Inr current_difficulty"
    by (simp add: adapt_rule_based_short)
  from get_next_difficulty_returns[OF this] show ?thesis
    by (simp add: recorded_avg_time_def)
qed

text \<open>
  The claim as it was stated asks for an average time of 0 with every time list. With no
  correctness flags and one time of 5 seconds the record holds 5.
\<close>

theorem empty_window_avg_time_counterexample:
  "map rec_accuracy
     (history (snd (get_next_difficulty binary64 (init None) ''MEDIUM'' [] [Fin 5]))) = [Fin 0]
   \<and> map rec_avg_time
       (history (snd (get_next_difficulty binary64 (init None) ''MEDIUM'' [] [Fin 5]))) = [Fin 5]
   \<and> map rec_avg_time
       (history (snd (get_next_difficulty binary64 (init None) ''MEDIUM'' [] [Fin 5])))
       \<noteq> [Fin 0]"
  by (simp add: get_next_difficulty_def adapt_rule_based_def init_def Let_def binary64_ops
        binary64_values)

section \<open>No times at all\<close>

text \<open>
  Claim C5. For a current difficulty that is EASY, MEDIUM or HARD (rank \<open>level\<close>), a config
  whose thresholds dict holds \<^verbatim>\<open>high\<close> and \<^verbatim>\<open>low\<close>, and a non-empty correctness list of at
  least \<open>min_attempts_before_change\<close> entries, a call with an empty time list returns the
  difficulty of rank \<open>max (level - 1) 0\<close>, whatever the accuracy: the average time counts as
  positive infinity, which fails tier A and satisfies tier B.
\<close>

theorem get_next_difficulty_empty_times:
  assumes "DIFFICULTY_MAP current_difficulty = Some level"
    and "rule_based_thresholds (config self) ''high'' = Some high"
    and "rule_based_thresholds (config self) ''low'' = Some low"
    and "recent_performance \<noteq> []"
    and "min_attempts_before_change (config self) \<le> int (length recent_performance)"
  shows "\<exists>d. REVERSE_MAP (max (level - 1) 0) = Some d
             \<and> fst (get_next_difficulty ops self current_difficulty recent_performance [])
                 = Inr d"
proof -
  let ?n = "max (level - 1) 0"
  have n: "spec_next_level high low level (computed_accuracy ops recent_performance)
             (computed_avg_time ops []) = ?n"
    by (simp add: spec_next_level_def computed_avg_time_def fl_less_def fl_greater_def)
  from assms(1) have "0 \<le> level \<and> level \<le> 2" by (rule DIFFICULTY_MAP_range)
  then have "0 \<le> ?n" "?n \<le> 2" by auto
  then obtain d where d: "REVERSE_MAP ?n = Some d" "return_level ?n = Inr d"
    using return_level_in_range by blast
  have "adapt_rule_based ops (config self) current_difficulty recent_performance [] = Inr d"
    using adapt_rule_based_tiers[OF assms(4,5,1,2,3), of ops "[]"] n d(2) by simp
  then have "fst (get_next_difficulty ops self current_difficulty recent_performance [])
               = Inr d"
    by (simp add: get_next_difficulty_returns)
  with d(1) show ?thesis by blast
qed

text \<open>Three correct answers and no times: HARD still drops to MEDIUM.\<close>

theorem get_next_difficulty_empty_times_witness:
  "DIFFICULTY_MAP ''HARD'' = Some 2
   \<and> rule_based_thresholds (config (init None)) ''high'' = Some 75
   \<and> rule_based_thresholds (config (init None)) ''low'' = Some 50
   \<and> [True, True, True] \<noteq> []
   \<and> min_attempts_before_change (config (init None)) \<le> int (length [True, True, True])
   \<and> fst (get_next_difficulty binary64 (init None) ''HARD'' [True, True, True] [])
       = Inr ''MEDIUM''"
proof -
  have h1: "DIFFICULTY_MAP ''HARD'' = Some 2" by (simp add: DIFFICULTY_MAP_def)
  have h2: "rule_based_thresholds (config (init None)) ''high'' = Some 75"
    by (simp add: init_def default_config_def)
  have h3: "rule_based_thresholds (config (init None)) ''low'' = Some 50"
    by (simp add: init_def default_config_def)
  have h4: "[True, True, True] \<noteq> []" by simp
  have h5: "min_attempts_before_change (config (init None)) \<le> int (length [True, True, True])"
    by (simp add: init_def default_config_def)
  from get_next_difficulty_empty_times[OF h1 h2 h3 h4 h5, of binary64]
  have "fst (get_next_difficulty binary64 (init None) ''HARD'' [True, True, True] [])
          = Inr ''MEDIUM''"
    by (auto simp: REVERSE_MAP_def)
  with h1 h2 h3 h4 h5 show ?thesis by blast
qed

section \<open>The level stays between EASY and HARD\<close>

text \<open>
  Claim C6. For every config whose thresholds dict holds \<^verbatim>\<open>high\<close> and \<^verbatim>\<open>low\<close>, every
  current difficulty among EASY, MEDIUM and HARD and every pair of lists, the decision
  operation returns a difficulty that is again EASY, MEDIUM or HARD, and the level \<open>n\<close> it
  stands for lies between 0 and 2: the reverse lookup of the computed level never misses.
  From EASY (rank 0) the result is therefore never below EASY, and from HARD (rank 2) never
  above HARD.
\<close>

theorem get_next_difficulty_clamped:
  assumes "DIFFICULTY_MAP current_difficulty = Some level"
    and "rule_based_thresholds (config self) ''high'' = Some high"
    and "rule_based_thresholds (config self) ''low'' = Some low"
  shows "\<exists>n d. fst (get_next_difficulty ops self current_difficulty
                     recent_performance recent_times) = Inr d
           \<and> REVERSE_MAP n = Some d \<and> DIFFICULTY_MAP d = Some n
           \<and> 0 \<le> n \<and> n \<le> 2
           \<and> d \<in> set DIFFICULTY_LEVELS"
proof -
  from adapt_rule_based_level[OF assms] obtain n d where
    a: "adapt_rule_based ops (config self) current_difficulty recent_performance recent_times
          = Inr d"
    and d: "DIFFICULTY_MAP d = Some n" "REVERSE_MAP n = Some d" "0 \<le> n" "n \<le> 2"
    by blast
  from a have "fst (get_next_difficulty ops self current_difficulty
                      recent_performance recent_times) = Inr d"
    by (simp add: get_next_difficulty_returns)
  moreover from d(1) have "d \<in> set DIFFICULTY_LEVELS"
    by (auto simp: DIFFICULTY_MAP_levels)
  ultimately show ?thesis using d by blast
qed

text \<open>
  The fourth scenario of the specification: HARD with three fast correct answers meets
  tier A and stays HARD.
\<close>

theorem get_next_difficulty_clamped_witness:
  "DIFFICULTY_MAP ''HARD'' = Some 2
   \<and> rule_based_thresholds (config (init None)) ''high'' = Some 75
   \<and> rule_based_thresholds (config (init None)) ''low'' = Some 50
   \<and> (\<exists>n d. fst (get_next_difficulty binary64 (init None) ''HARD'' [True, True, True]
                   [Fin 3, Fin 3, Fin 3]) = Inr d
         \<and> REVERSE_MAP n = Some d \<and> DIFFICULTY_MAP d = Some n \<and> 0 \<le> n \<and> n \<le> 2
         \<and> d \<in> set DIFFICULTY_LEVELS)"
proof -
  have h1: "DIFFICULTY_MAP ''HARD'' = Some 2" by (simp add: DIFFICULTY_MAP_def)
  have h2: "rule_based_thresholds (config (init None)) ''high'' = Some 75"
    by (simp add: init_def default_config_def)
  have h3: "rule_based_thresholds (config (init None)) ''low'' = Some 50"
    by (simp add: init_def default_config_def)
  from get_next_difficulty_clamped[OF h1 h2 h3,
         of binary64 "[True, True, True]" "[Fin 3, Fin 3, Fin 3]"] h1 h2 h3
  show ?thesis by blast
qed

section \<open>Determinism\<close>

text \<open>
  Claim C7. The outcome of a call depends on the config, the current difficulty and the two
  lists only, not on the counter or on the history so far: two engines with the same config
  return the same result on the same arguments, and the records they append agree in their
  \<^verbatim>\<open>from\<close>, \<^verbatim>\<open>to\<close>, accuracy and average-time fields. Only the sequence number may differ.
\<close>

theorem get_next_difficulty_deterministic:
  assumes "config self1 = config self2"
  shows "fst (get_next_difficulty ops self1 current_difficulty recent_performance recent_times)
           = fst (get_next_difficulty ops self2 current_difficulty
                    recent_performance recent_times)
         \<and> map (\<lambda>r. (rec_from r, rec_to r, rec_accuracy r, rec_avg_time r))
             (drop (length (history self1))
                (history (snd (get_next_difficulty ops self1 current_difficulty
                                 recent_performance recent_times))))
           = map (\<lambda>r. (rec_from r, rec_to r, rec_accuracy r, rec_avg_time r))
               (drop (length (history self2))
                  (history (snd (get_next_difficulty ops self2 current_difficulty
                                   recent_performance recent_times))))"
proof (cases "adapt_rule_based ops (config self2) current_difficulty
                recent_performance recent_times")
  case (Inl e)
  with assms show ?thesis by (simp add: get_next_difficulty_raises)
next
  case (Inr d)
  with assms show ?thesis by (simp add: get_next_difficulty_returns)
qed

text \<open>
  A fresh engine against one that has already decided once; the first scenario of the
  specification on both.
\<close>

theorem get_next_difficulty_deterministic_witness:
  "config (init None) = config (snd (get_next_difficulty binary64 (init None) ''EASY'' [] []))
   \<and> fst (get_next_difficulty binary64 (init None) ''MEDIUM'' [True, True, True, True]
            [Fin 5, Fin 6, Fin 4, Fin 7])
       = fst (get_next_difficulty binary64
                (snd (get_next_difficulty binary64 (init None) ''EASY'' [] []))
                ''MEDIUM'' [True, True, True, True] [Fin 5, Fin 6, Fin 4, Fin 7])
   \<and> map (\<lambda>r. (rec_from r, rec_to r, rec_accuracy r, rec_avg_time r))
       (drop (length (history (init None)))
          (history (snd (get_next_difficulty binary64 (init None)
                           ''MEDIUM'' [True, True, True, True] [Fin 5, Fin 6, Fin 4, Fin 7]))))
     = map (\<lambda>r. (rec_from r, rec_to r, rec_accuracy r, rec_avg_time r))
         (drop (length (history (snd (get_next_difficulty binary64 (init None)
                                        ''EASY'' [] []))))
            (history (snd (get_next_difficulty binary64
                             (snd (get_next_difficulty binary64 (init None) ''EASY'' [] []))
                             ''MEDIUM'' [True, True, True, True]
                             [Fin 5, Fin 6, Fin 4, Fin 7]))))"
proof -
  have h: "config (init None)
             = config (snd (get_next_difficulty binary64 (init None) ''EASY'' [] []))"
    by (simp add: get_next_difficulty_counter)
  from get_next_difficulty_deterministic[OF h] h show ?thesis by blast
qed

section \<open>Reset\<close>

text \<open>
  Claim C8. After \<^verbatim>\<open>reset_history\<close>, in any engine state, the history accessor returns the
  empty list and the attempt counter is 0; resetting twice is the same as resetting once.
\<close>

theorem reset_history_clears:
  "get_adaptation_history (reset_history self) = []
   \<and> attempt_count (reset_history self) = 0
   \<and> reset_history (reset_history self) = reset_history self"
  by (simp add: get_adaptation_history_def reset_history_def)

section \<open>Construction\<close>

text \<open>
  Claim C9, as the code has it. Construction checks nothing: given any config, whether or
  not it meets the specification's invariant, it yields an engine that holds this very
  config, with the attempt counter at 0 and an empty history; given no config it takes the
  default one. The code has no configuration error.
\<close>

theorem init_performs_no_validation:
  "init (Some c) = \<lparr>config = c, attempt_count = 0, history = []\<rparr>
   \<and> init None = \<lparr>config = default_config, attempt_count = 0, history = []\<rparr>"
  by (simp add: init_def)

text \<open>
  The claim as it was stated wants an invalid config refused. The default config with
  \<open>min_attempts_before_change\<close> set to 0 breaks the invariant and is accepted like any other.
\<close>

theorem init_accepts_invalid_config:
  "\<not> spec_config_invariant
       \<lparr>rule_based_thresholds = rule_based_thresholds default_config,
        lookback_window = 5, min_attempts_before_change = 0\<rparr>
   \<and> init (Some \<lparr>rule_based_thresholds = rule_based_thresholds default_config,
                  lookback_window = 5, min_attempts_before_change = 0\<rparr>) =
       \<lparr>config = \<lparr>rule_based_thresholds = rule_based_thresholds default_config,
                  lookback_window = 5, min_attempts_before_change = 0\<rparr>,
        attempt_count = 0, history = []\<rparr>"
  by (simp add: spec_config_invariant_def default_config_def init_def)

section \<open>The rank lookup happens on the adaptation path only\<close>

text \<open>
  Claim C10. With an empty correctness list, or one shorter than
  \<open>min_attempts_before_change\<close>, the decision operation returns its \<open>current_difficulty\<close>
  argument as it is, for any string at all, and does not raise. The rank of the difficulty
  is looked up only past these two early returns: there, a string that is not EASY, MEDIUM
  or HARD raises \<^verbatim>\<open>KeyError\<close>.
\<close>

theorem get_next_difficulty_rank_lookup:
  "(recent_performance = []
      \<or> int (length recent_performance) < min_attempts_before_change (config self)
    \<longrightarrow> fst (get_next_difficulty ops self current_difficulty recent_performance recent_times)
          = Inr current_difficulty)
   \<and> (recent_performance \<noteq> []
      \<and> min_attempts_before_change (config self) \<le> int (length recent_performance)
      \<and> current_difficulty \<notin> set DIFFICULTY_LEVELS
    \<longrightarrow> fst (get_next_difficulty ops self current_difficulty recent_performance recent_times)
          = Inl (KeyError (StrKey current_difficulty)))"
proof (intro conjI impI)
  assume "recent_performance = []
            \<or> int (length recent_performance) < min_attempts_before_change (config self)"
  then have "adapt_rule_based ops (config self) current_difficulty recent_performance
               recent_times = Inr current_difficulty"
    by (rule adapt_rule_based_short)
  then show "fst (get_next_difficulty ops self current_difficulty recent_performance
                    recent_times) = Inr current_difficulty"
    by (simp add: get_next_difficulty_returns)
next
  assume a: "recent_performance \<noteq> []
      \<and> min_attempts_before_change (config self) \<le> int (length recent_performance)
      \<and> current_difficulty \<notin> set DIFFICULTY_LEVELS"
  then have "DIFFICULTY_MAP current_difficulty = None"
    by (simp add: DIFFICULTY_MAP_levels)
  with a have "adapt_rule_based ops (config self) current_difficulty recent_performance
                 recent_times = Inl (KeyError (StrKey current_difficulty))"
    by (simp add: adapt_rule_based_def Let_def)
  then show "fst (get_next_difficulty ops self current_difficulty recent_performance
                    recent_times) = Inl (KeyError (StrKey current_difficulty))"
    by (simp add: get_next_difficulty_raises)
qed

text \<open>
  The string EXPERT under the default config: returned as it is with two answers, refused
  with three.
\<close>

theorem get_next_difficulty_rank_lookup_witness:
  "([True, True] = []
      \<or> int (length [True, True]) < min_attempts_before_change (config (init None)))
   \<and> fst (get_next_difficulty binary64 (init None) ''EXPERT'' [True, True] [Fin 3, Fin 3])
       = Inr ''EXPERT''
   \<and> [True, True, True] \<noteq> []
   \<and> min_attempts_before_change (config (init None)) \<le> int (length [True, True, True])
   \<and> ''EXPERT'' \<notin> set DIFFICULTY_LEVELS
   \<and> fst (get_next_difficulty binary64 (init None) ''EXPERT'' [True, True, True]
            [Fin 3, Fin 3, Fin 3])
       = Inl (KeyError (StrKey ''EXPERT''))"
proof -
  have h1: "[True, True] = []
      \<or> int (length [True, True]) < min_attempts_before_change (config (init None))"
    by (simp add: init_def default_config_def)
  have h2: "[True, True, True] \<noteq> []
      \<and> min_attempts_before_change (config (init None)) \<le> int (length [True, True, True])
      \<and> ''EXPERT'' \<notin> set DIFFICULTY_LEVELS"
    by (simp add: init_def default_config_def DIFFICULTY_LEVELS_def)
  from get_next_difficulty_rank_lookup[of "[True, True]" "init None" binary64 "''EXPERT''"
         "[Fin 3, Fin 3]"] h1
  have r1: "fst (get_next_difficulty binary64 (init None) ''EXPERT'' [True, True]
                   [Fin 3, Fin 3]) = Inr ''EXPERT''"
    by blast
  from get_next_difficulty_rank_lookup[of "[True, True, True]" "init None" binary64
         "''EXPERT''" "[Fin 3, Fin 3, Fin 3]"] h2
  have r2: "fst (get_next_difficulty binary64 (init None) ''EXPERT'' [True, True, True]
                   [Fin 3, Fin 3, Fin 3]) = Inl (KeyError (StrKey ''EXPERT''))"
    by blast
  from h1 h2 r1 r2 show ?thesis by blast
qed

end
